theory Spec2Isabelle
  imports Complex_Main "HOL-Library.AList"
begin

section \<open>The Qdrant adapter of context_chat_backend (vectordb/qdrant.py)\<close>

text \<open>
  The adapter is a Python class \<^verbatim>\<open>VectorDB\<close> with a constructor and five methods.
  Each method is embedded as a HOL function. An exception is a value: every function that
  can raise returns a sum, with \<open>Inl\<close> carrying the exception. The remote service the
  client talks to is an explicit state that the functions take and return.
\<close>

subsection \<open>Python values and exceptions\<close>

text \<open>
  The values that occur in filters and payloads: \<^verbatim>\<open>None\<close>, integers, strings and lists.
\<close>

datatype py_value =
    PyNone
  | PyInt int
  | PyStr string
  | PyList "py_value list"

text \<open>
  \<^verbatim>\<open>DbException(msg)\<close> carries its message and, when raised with \<^verbatim>\<open>from e\<close>, its cause.
  \<open>ClientError\<close> stands for an exception raised by the third-party client library.
\<close>

datatype py_exception =
    KeyError string
  | IndexError
  | ClientError string
  | DbException string "py_exception option"

text \<open>\<^verbatim>\<open>d[k]\<close> on a dictionary raises \<^verbatim>\<open>KeyError\<close> when the key is absent.\<close>

definition getitem :: "(string \<rightharpoonup> 'v) \<Rightarrow> string \<Rightarrow> py_exception + 'v" where
  "getitem d k = (case d k of None \<Rightarrow> Inl (KeyError k) | Some v \<Rightarrow> Inr v)"

text \<open>\<^verbatim>\<open>d.get(k)\<close> returns \<^verbatim>\<open>None\<close> when the key is absent.\<close>

definition dict_get :: "(string \<rightharpoonup> py_value) \<Rightarrow> string \<Rightarrow> py_value" where
  "dict_get d k = (case d k of None \<Rightarrow> PyNone | Some v \<Rightarrow> v)"

text \<open>\<^verbatim>\<open>xs[0]\<close> on a list raises \<^verbatim>\<open>IndexError\<close> when the list is empty.\<close>

definition first_item :: "'a list \<Rightarrow> py_exception + 'a" where
  "first_item xs = (case xs of [] \<Rightarrow> Inl IndexError | x # _ \<Rightarrow> Inr x)"

subsection \<open>get_metadata_filter\<close>

text \<open>
  A \<^verbatim>\<open>MetadataFilter\<close> is a dictionary with the keys \<^verbatim>\<open>'metadata_key'\<close> and
  \<^verbatim>\<open>'values'\<close>; a dictionary that lacks one of them is malformed.
\<close>

type_synonym metadata_filter = "string \<rightharpoonup> py_value"

text \<open>
  The result is one of two dictionaries:
  \<^verbatim>\<open>{'key': k, 'match': {'value': v}}\<close> or \<^verbatim>\<open>{'should': [...]}\<close>.
\<close>

record field_condition =
  key :: py_value
  match_value :: py_value

datatype filter_dict =
    Condition field_condition
  | Should "field_condition list"

text \<open>
  The dictionary display \<^verbatim>\<open>{'key': f['metadata_key'], 'match': {'value': f['values']}}\<close>:
  the two subscripts are evaluated left to right and either may raise \<^verbatim>\<open>KeyError\<close>.
\<close>

definition condition_of :: "metadata_filter \<Rightarrow> py_exception + field_condition" where
  "condition_of f =
     (case getitem f ''metadata_key'' of
        Inl e \<Rightarrow> Inl e
      | Inr k \<Rightarrow>
          (case getitem f ''values'' of
             Inl e \<Rightarrow> Inl e
           | Inr v \<Rightarrow> Inr \<lparr>key = k, match_value = v\<rparr>))"

text \<open>The list comprehension over \<^verbatim>\<open>filters\<close>: it stops at the first exception.\<close>

fun conditions :: "metadata_filter list \<Rightarrow> py_exception + field_condition list" where
  "conditions [] = Inr []"
| "conditions (f # fs) =
     (case condition_of f of
        Inl e \<Rightarrow> Inl e
      | Inr c \<Rightarrow>
          (case conditions fs of
             Inl e \<Rightarrow> Inl e
           | Inr cs \<Rightarrow> Inr (c # cs)))"

text \<open>The body of the \<^verbatim>\<open>try\<close> block.\<close>

definition filter_body :: "metadata_filter list \<Rightarrow> py_exception + filter_dict" where
  "filter_body filters =
     (if length filters = 1 then
        (case first_item filters of
           Inl e \<Rightarrow> Inl e
         | Inr f \<Rightarrow>
             (case condition_of f of
                Inl e \<Rightarrow> Inl e
              | Inr c \<Rightarrow> Inr (Condition c)))
      else
        (case conditions filters of
           Inl e \<Rightarrow> Inl e
         | Inr cs \<Rightarrow> Inr (Should cs)))"

text \<open>
  The method itself: the empty list gives \<^verbatim>\<open>None\<close>; \<^verbatim>\<open>KeyError\<close> and \<^verbatim>\<open>IndexError\<close>
  from the body are caught and give \<^verbatim>\<open>None\<close>; any other exception propagates.
  The method does not read \<^verbatim>\<open>self\<close>.
\<close>

definition get_metadata_filter :: "metadata_filter list \<Rightarrow> py_exception + filter_dict option" where
  "get_metadata_filter filters =
     (if length filters = 0 then Inr None
      else
        (case filter_body filters of
           Inl (KeyError k) \<Rightarrow> Inr None
         | Inl IndexError \<Rightarrow> Inr None
         | Inl e \<Rightarrow> Inl e
         | Inr d \<Rightarrow> Inr (Some d)))"

text \<open>A filter that has both required keys, and the exact-match condition it denotes.\<close>

definition well_formed :: "metadata_filter \<Rightarrow> bool" where
  "well_formed f \<longleftrightarrow> f ''metadata_key'' \<noteq> None \<and> f ''values'' \<noteq> None"

definition exact_match :: "metadata_filter \<Rightarrow> field_condition" where
  "exact_match f = \<lparr>key = the (f ''metadata_key''), match_value = the (f ''values'')\<rparr>"

subsection \<open>The module constant class_schema\<close>

record property =
  prop_name :: string
  prop_type :: string
  description :: string

record schema =
  properties :: "property list"
  vector_size :: nat
  distance :: string

definition class_schema :: schema where
  "class_schema =
     \<lparr>properties =
        [\<lparr>prop_name = ''text'', prop_type = ''text'', description = ''The actual text''\<rparr>,
         \<lparr>prop_name = ''type'', prop_type = ''text'',
          description = ''The type of source/mimetype of file''\<rparr>,
         \<lparr>prop_name = ''title'', prop_type = ''text'',
          description = ''The name or subject of the source''\<rparr>,
         \<lparr>prop_name = ''source'', prop_type = ''text'',
          description = ''The source of the text (for files: `files__default: fileId`)''\<rparr>,
         \<lparr>prop_name = ''start_index'', prop_type = ''integer'',
          description = ''Start index of chunk''\<rparr>,
         \<lparr>prop_name = ''modified'', prop_type = ''text'',
          description = ''Last modified time of the file''\<rparr>,
         \<lparr>prop_name = ''provider'', prop_type = ''text'',
          description = ''The provider of the source''\<rparr>],
      vector_size = 768,
      distance = ''Cosine''\<rparr>"

subsection \<open>The client library and the remote service\<close>

text \<open>
  The third-party client is not part of the repository. Its objects are modelled by the
  data the adapter passes to them and reads from them: \<^verbatim>\<open>rest.Distance\<close>,
  \<^verbatim>\<open>rest.VectorParams\<close>, the collections of the service, the arguments of a search and
  the points a search returns.
\<close>

datatype rest_distance = COSINE | EUCLID | DOT | MANHATTAN

record vector_params =
  vsize :: nat
  vdistance :: rest_distance

record collection =
  name :: string
  vectors_config :: vector_params
  payload_schema :: "property list"

record search_request =
  collection_name :: string
  query_vector :: "real list option"
  query_filter :: filter_dict
  limit :: nat

record scored_point =
  hit_id :: py_value
  payload :: "string \<rightharpoonup> py_value"

text \<open>The calls a client makes to the service, in the order they are made.\<close>

datatype request =
    GetCollections
  | CreateCollection string vector_params "property list"
  | Search search_request

text \<open>
  The service: its collections in creation order, the points it holds that match a search
  request (\<open>search_response\<close>, best match first), and the log of the requests it has
  received. The calls of the client are assumed to reach the service and to return:
  \<open>get_collections\<close> reads the collections, \<open>create_collection\<close> adds one, and
  \<open>search\<close> returns the matching points up to the \<^verbatim>\<open>limit\<close> of the request, which is
  what the \<^verbatim>\<open>limit\<close> argument of the client's \<^verbatim>\<open>search\<close> means. A point comes back with
  its payload, a dictionary, as the adapter's \<^verbatim>\<open>payload.get\<close> expects.
\<close>

record qdrant_service =
  collections :: "collection list"
  search_response :: "search_request \<Rightarrow> scored_point list"
  requests :: "request list"

definition get_collections :: "qdrant_service \<Rightarrow> collection list \<times> qdrant_service" where
  "get_collections svc = (collections svc, svc\<lparr>requests := requests svc @ [GetCollections]\<rparr>)"

definition create_collection ::
  "string \<Rightarrow> vector_params \<Rightarrow> property list \<Rightarrow> qdrant_service \<Rightarrow> qdrant_service" where
  "create_collection cname cfg props svc =
     svc\<lparr>collections :=
           collections svc @ [\<lparr>name = cname, vectors_config = cfg, payload_schema = props\<rparr>],
         requests := requests svc @ [CreateCollection cname cfg props]\<rparr>"

definition search :: "search_request \<Rightarrow> qdrant_service \<Rightarrow> scored_point list \<times> qdrant_service" where
  "search req svc =
     (take (limit req) (search_response svc req),
      svc\<lparr>requests := requests svc @ [Search req]\<rparr>)"

text \<open>The object \<^verbatim>\<open>QdrantClient(url=..., api_key=...)\<close> returns.\<close>

record qdrant_client =
  url :: "string option"
  api_key :: "string option"

subsection \<open>The helpers imported from the package\<close>

text \<open>
  \<^verbatim>\<open>get_collection_name\<close> and \<^verbatim>\<open>get_user_id_from_collection\<close> are imported from the
  package's \<^verbatim>\<open>__init__\<close>, which is not among the sources, and the spec says of them only
  that a collection is named deterministically from a user identifier and that get_users
  maps each collection back to a user identifier. Both helpers are therefore parameters of
  the model, functions from strings to strings, and nothing is assumed about them.
\<close>

record package_helpers =
  get_collection_name :: "string \<Rightarrow> string"
  get_user_id_from_collection :: "string \<Rightarrow> string"

subsection \<open>The adapter\<close>

text \<open>
  The fields of \<^verbatim>\<open>VectorDB\<close>. A client object and an embedding object are truthy, so
  \<^verbatim>\<open>not self.client\<close> holds exactly when the field is \<^verbatim>\<open>None\<close>.
\<close>

record 'e vectordb =
  client :: "qdrant_client option"
  embedding :: "'e option"

text \<open>The keyword arguments the returned \<^verbatim>\<open>VectorStore\<close> handle is built from.\<close>

record 'e vector_store =
  vs_client :: "qdrant_client option"
  vs_collection_name :: string
  text_key :: string
  vs_embedding :: "'e option"

text \<open>
  \<^verbatim>\<open>__init__\<close>. The client constructor and the process environment are parameters;
  the constructor either raises an exception or returns a client.
\<close>

definition init ::
  "(string option \<Rightarrow> string option \<Rightarrow> py_exception + qdrant_client) \<Rightarrow> (string \<rightharpoonup> string)
     \<Rightarrow> 'e option \<Rightarrow> py_exception + 'e vectordb" where
  "init QdrantClient getenv emb =
     (case QdrantClient (getenv ''QDRANT_URL'') (getenv ''QDRANT_APIKEY'') of
        Inl e \<Rightarrow> Inl (DbException ''Error: Qdrant connection error'' (Some e))
      | Inr c \<Rightarrow> Inr \<lparr>client = Some c, embedding = emb\<rparr>)"

definition get_users ::
  "package_helpers \<Rightarrow> 'e vectordb \<Rightarrow> qdrant_service
     \<Rightarrow> (py_exception + string list) \<times> qdrant_service" where
  "get_users h self svc =
     (case client self of
        None \<Rightarrow> (Inl (DbException ''Error: Qdrant client not initialised'' None), svc)
      | Some c \<Rightarrow>
          (case get_collections svc of
             (colls, svc1) \<Rightarrow>
               (Inr (map (\<lambda>coll. get_user_id_from_collection h (name coll)) colls), svc1)))"

definition setup_schema ::
  "package_helpers \<Rightarrow> 'e vectordb \<Rightarrow> string \<Rightarrow> qdrant_service
     \<Rightarrow> (py_exception + unit) \<times> qdrant_service" where
  "setup_schema h self user_id svc =
     (case client self of
        None \<Rightarrow> (Inl (DbException ''Error: Qdrant client not initialised'' None), svc)
      | Some c \<Rightarrow>
          (let cname = get_collection_name h user_id in
           case get_collections svc of
             (colls, svc1) \<Rightarrow>
               if cname \<in> set (map name colls) then (Inr (), svc1)
               else (Inr (),
                     create_collection cname \<lparr>vsize = 768, vdistance = COSINE\<rparr>
                       (properties class_schema) svc1)))"

text \<open>\<^verbatim>\<open>a or b\<close> on two optional objects: \<^verbatim>\<open>a\<close> unless it is \<^verbatim>\<open>None\<close>.\<close>

definition py_or :: "'a option \<Rightarrow> 'a option \<Rightarrow> 'a option" where
  "py_or a b = (case a of Some x \<Rightarrow> Some x | None \<Rightarrow> b)"

definition get_user_client ::
  "package_helpers \<Rightarrow> 'e vectordb \<Rightarrow> string \<Rightarrow> 'e option \<Rightarrow> qdrant_service
     \<Rightarrow> (py_exception + 'e vector_store) \<times> qdrant_service" where
  "get_user_client h self user_id emb svc =
     (case setup_schema h self user_id svc of
        (Inl e, svc1) \<Rightarrow> (Inl e, svc1)
      | (Inr u, svc1) \<Rightarrow>
          (Inr \<lparr>vs_client = client self,
                vs_collection_name = get_collection_name h user_id,
                text_key = ''text'',
                vs_embedding = py_or (embedding self) emb\<rparr>,
           svc1))"

text \<open>
  The dictionary get_objects_from_metadata returns, in insertion order: assigning to a
  key that is present replaces its value and keeps its place.
\<close>

record search_entry =
  entry_id :: py_value
  modified :: py_value

type_synonym search_dict = "(py_value \<times> search_entry) list"

text \<open>
  The loop over the hits. \<^verbatim>\<open>key_value in values\<close> compares \<^verbatim>\<open>key_value\<close> with the
  strings of \<^verbatim>\<open>values\<close>.
\<close>

fun collect_hits :: "string \<Rightarrow> string list \<Rightarrow> scored_point list \<Rightarrow> search_dict \<Rightarrow> search_dict" where
  "collect_hits metadata_key vals [] output = output"
| "collect_hits metadata_key vals (hit # hits) output =
     (let key_value = dict_get (payload hit) metadata_key in
      if key_value \<in> set (map PyStr vals) then
        collect_hits metadata_key vals hits
          (AList.update key_value
             \<lparr>entry_id = hit_id hit, modified = dict_get (payload hit) ''modified''\<rparr> output)
      else collect_hits metadata_key vals hits output)"

definition get_objects_from_metadata ::
  "package_helpers \<Rightarrow> 'e vectordb \<Rightarrow> string \<Rightarrow> string \<Rightarrow> string list \<Rightarrow> qdrant_service
     \<Rightarrow> (py_exception + search_dict) \<times> qdrant_service" where
  "get_objects_from_metadata h self user_id metadata_key vals svc =
     (case client self of
        None \<Rightarrow> (Inl (DbException ''Error: Qdrant client not initialised'' None), svc)
      | Some c \<Rightarrow>
          (case setup_schema h self user_id svc of
             (Inl e, svc1) \<Rightarrow> (Inl e, svc1)
           | (Inr u, svc1) \<Rightarrow>
               (case get_metadata_filter
                       [[''metadata_key'' \<mapsto> PyStr metadata_key,
                         ''values'' \<mapsto> PyList (map PyStr vals)]] of
                  Inl e \<Rightarrow> (Inl e, svc1)
                | Inr None \<Rightarrow> (Inl (DbException ''Error: Qdrant metadata filter error'' None), svc1)
                | Inr (Some qf) \<Rightarrow>
                    (case search \<lparr>collection_name = get_collection_name h user_id,
                                  query_vector = None,
                                  query_filter = qf,
                                  limit = 100\<rparr> svc1 of
                       (search_result, svc2) \<Rightarrow>
                         (Inr (collect_hits metadata_key vals search_result []), svc2)))))"

text \<open>The creation requests in a log.\<close>

fun is_creation :: "request \<Rightarrow> bool" where
  "is_creation (CreateCollection n cfg props) = True"
| "is_creation r = False"

definition creation_calls :: "qdrant_service \<Rightarrow> request list" where
  "creation_calls svc = filter is_creation (requests svc)"

subsection \<open>Example values\<close>

text \<open>
  Concrete helpers, a client, an adapter and two states of the service, on which the
  theorems below are instantiated. \<open>example_provisioned\<close> is \<open>example_service\<close> after
  the collection of user \<^verbatim>\<open>alice\<close> has been created.
\<close>

definition example_helpers :: package_helpers where
  "example_helpers =
     \<lparr>get_collection_name = (\<lambda>user_id. ''Vector_user_'' @ user_id),
      get_user_id_from_collection = drop 12\<rparr>"

definition example_hits :: "scored_point list" where
  "example_hits =
     [\<lparr>hit_id = PyInt 1,
       payload = [''source'' \<mapsto> PyStr ''a'', ''modified'' \<mapsto> PyStr ''100'']\<rparr>,
      \<lparr>hit_id = PyInt 2,
       payload = [''source'' \<mapsto> PyStr ''b'', ''modified'' \<mapsto> PyStr ''200'']\<rparr>,
      \<lparr>hit_id = PyInt 3,
       payload = [''source'' \<mapsto> PyStr ''a'', ''modified'' \<mapsto> PyStr ''300'']\<rparr>,
      \<lparr>hit_id = PyInt 4,
       payload = [''modified'' \<mapsto> PyStr ''400'']\<rparr>]"

definition example_service :: qdrant_service where
  "example_service =
     \<lparr>collections = [],
      search_response = (\<lambda>req. example_hits),
      requests = []\<rparr>"

definition example_provisioned :: qdrant_service where
  "example_provisioned =
     \<lparr>collections =
        [\<lparr>name = ''Vector_user_alice'',
          vectors_config = \<lparr>vsize = 768, vdistance = COSINE\<rparr>,
          payload_schema = properties class_schema\<rparr>],
      search_response = (\<lambda>req. example_hits),
      requests =
        [GetCollections,
         CreateCollection ''Vector_user_alice'' \<lparr>vsize = 768, vdistance = COSINE\<rparr>
           (properties class_schema)]\<rparr>"

definition example_client :: qdrant_client where
  "example_client = \<lparr>url = Some ''http://localhost:6333'', api_key = None\<rparr>"

definition example_adapter :: "string vectordb" where
  "example_adapter = \<lparr>client = Some example_client, embedding = Some ''instance''\<rparr>"

definition example_QdrantClient ::
  "string option \<Rightarrow> string option \<Rightarrow> py_exception + qdrant_client" where
  "example_QdrantClient u k =
     (case u of
        None \<Rightarrow> Inl (ClientError ''no url'')
      | Some a \<Rightarrow> Inr \<lparr>url = u, api_key = k\<rparr>)"

section \<open>Lemmas\<close>

subsection \<open>get_metadata_filter\<close>

lemma condition_of_well_formed:
  "well_formed f \<Longrightarrow> condition_of f = Inr (exact_match f)"
  by (auto simp: well_formed_def condition_of_def getitem_def exact_match_def)

lemma condition_of_malformed:
  "\<not> well_formed f \<Longrightarrow> \<exists>k. condition_of f = Inl (KeyError k)"
  by (auto simp: well_formed_def condition_of_def getitem_def split: option.splits)

lemma condition_of_raise_KeyError:
  "condition_of f = Inl e \<Longrightarrow> \<exists>k. e = KeyError k"
  by (auto simp: condition_of_def getitem_def split: option.splits)

lemma conditions_well_formed:
  "list_all well_formed fs \<Longrightarrow> conditions fs = Inr (map exact_match fs)"
  by (induction fs) (simp_all add: condition_of_well_formed)

lemma conditions_raise_KeyError:
  "conditions fs = Inl e \<Longrightarrow> \<exists>k. e = KeyError k"
proof (induction fs)
  case Nil
  then show ?case by simp
next
  case (Cons f fs)
  show ?case
  proof (cases "well_formed f")
    case True
    with Cons show ?thesis
      by (auto simp: condition_of_well_formed split: sum.splits)
  next
    case False
    then obtain k where "condition_of f = Inl (KeyError k)"
      using condition_of_malformed by blast
    with Cons.prems show ?thesis by auto
  qed
qed

lemma conditions_malformed:
  "\<not> list_all well_formed fs \<Longrightarrow> \<exists>k. conditions fs = Inl (KeyError k)"
proof (induction fs)
  case Nil
  then show ?case by simp
next
  case (Cons f fs)
  show ?case
  proof (cases "well_formed f")
    case True
    with Cons.prems have "\<not> list_all well_formed fs" by simp
    then obtain k where "conditions fs = Inl (KeyError k)"
      using Cons.IH by blast
    with True show ?thesis by (simp add: condition_of_well_formed)
  next
    case False
    then obtain k where "condition_of f = Inl (KeyError k)"
      using condition_of_malformed by blast
    then show ?thesis by simp
  qed
qed

lemma filter_body_malformed:
  assumes "\<not> list_all well_formed fs"
  shows "\<exists>k. filter_body fs = Inl (KeyError k)"
proof (cases "length fs = 1")
  case True
  then obtain f where fs: "fs = [f]"
    by (cases fs) auto
  with assms have "\<not> well_formed f" by simp
  then obtain k where "condition_of f = Inl (KeyError k)"
    using condition_of_malformed by blast
  with fs show ?thesis by (simp add: filter_body_def first_item_def)
next
  case False
  obtain k where "conditions fs = Inl (KeyError k)"
    using conditions_malformed [OF assms] by blast
  with False show ?thesis by (simp add: filter_body_def)
qed

lemma filter_body_well_formed:
  assumes "list_all well_formed fs"
  shows "filter_body fs =
           Inr (if length fs = 1 then Condition (exact_match (hd fs))
                else Should (map exact_match fs))"
proof (cases "length fs = 1")
  case True
  then obtain f where fs: "fs = [f]"
    by (cases fs) auto
  with assms show ?thesis
    by (simp add: filter_body_def first_item_def condition_of_well_formed)
next
  case False
  with assms show ?thesis
    by (simp add: filter_body_def conditions_well_formed)
qed

lemma filter_body_raise_KeyError:
  assumes "filter_body fs = Inl e"
  shows "\<exists>k. e = KeyError k"
proof (cases "length fs = 1")
  case True
  then obtain f where fs: "fs = [f]"
    by (cases fs) auto
  with assms have "condition_of f = Inl e"
    by (simp add: filter_body_def first_item_def split: sum.splits)
  then show ?thesis by (rule condition_of_raise_KeyError)
next
  case False
  with assms have "conditions fs = Inl e"
    by (simp add: filter_body_def split: sum.splits)
  then show ?thesis by (rule conditions_raise_KeyError)
qed

lemma get_metadata_filter_no_raise: "get_metadata_filter fs \<noteq> Inl e"
proof (cases "filter_body fs")
  case (Inl x)
  then obtain k where "x = KeyError k"
    using filter_body_raise_KeyError by blast
  with Inl show ?thesis by (simp add: get_metadata_filter_def)
next
  case (Inr d)
  then show ?thesis by (simp add: get_metadata_filter_def)
qed

lemma single_filter:
  "get_metadata_filter [[''metadata_key'' \<mapsto> PyStr mk, ''values'' \<mapsto> PyList (map PyStr vals)]]
     = Inr (Some (Condition \<lparr>key = PyStr mk, match_value = PyList (map PyStr vals)\<rparr>))"
  by (simp add: get_metadata_filter_def filter_body_def first_item_def condition_of_def getitem_def)

subsection \<open>The loop over the hits\<close>

lemma set_update_subset: "set (AList.update k v al) \<subseteq> insert (k, v) (set al)"
  by (induction al) auto

lemma length_update_le: "length (AList.update k v al) \<le> Suc (length al)"
  by (induction al) auto

lemma collect_hits_keys:
  "fst ` set (collect_hits mk vals hits out) \<subseteq> fst ` set out \<union> PyStr ` set vals"
proof (induction hits arbitrary: out)
  case Nil
  then show ?case by simp
next
  case (Cons hit hits)
  show ?case
  proof (cases "dict_get (payload hit) mk \<in> set (map PyStr vals)")
    case True
    then show ?thesis
      using Cons.IH [of "AList.update (dict_get (payload hit) mk)
             \<lparr>entry_id = hit_id hit, modified = dict_get (payload hit) ''modified''\<rparr> out"]
      by (auto simp: Let_def AList.dom_update)
  next
    case False
    then show ?thesis using Cons.IH [of out] by (simp add: Let_def)
  qed
qed

lemma collect_hits_distinct:
  "distinct (map fst out) \<Longrightarrow> distinct (map fst (collect_hits mk vals hits out))"
  by (induction hits arbitrary: out) (simp_all add: Let_def AList.distinct_update)

lemma collect_hits_length:
  "length (collect_hits mk vals hits out) \<le> length out + length hits"
proof (induction hits arbitrary: out)
  case Nil
  then show ?case by simp
next
  case (Cons hit hits)
  show ?case
  proof (cases "dict_get (payload hit) mk \<in> set (map PyStr vals)")
    case True
    let ?out = "AList.update (dict_get (payload hit) mk)
             \<lparr>entry_id = hit_id hit, modified = dict_get (payload hit) ''modified''\<rparr> out"
    have "length (collect_hits mk vals hits ?out) \<le> length ?out + length hits"
      by (rule Cons.IH)
    also have "\<dots> \<le> Suc (length out) + length hits"
      using length_update_le [of _ _ out] by simp
    finally show ?thesis using True by (simp add: Let_def)
  next
    case False
    then show ?thesis using Cons.IH [of out] by (simp add: Let_def)
  qed
qed

lemma collect_hits_entries:
  "(k, e) \<in> set (collect_hits mk vals hits out) \<Longrightarrow>
     (k, e) \<in> set out \<or>
     (\<exists>hit \<in> set hits. dict_get (payload hit) mk = k \<and>
        e = \<lparr>entry_id = hit_id hit, modified = dict_get (payload hit) ''modified''\<rparr>)"
proof (induction hits arbitrary: out)
  case Nil
  then show ?case by simp
next
  case (Cons hit hits)
  show ?case
  proof (cases "dict_get (payload hit) mk \<in> set (map PyStr vals)")
    case True
    let ?out = "AList.update (dict_get (payload hit) mk)
             \<lparr>entry_id = hit_id hit, modified = dict_get (payload hit) ''modified''\<rparr> out"
    from Cons.prems True have "(k, e) \<in> set (collect_hits mk vals hits ?out)"
      by (simp add: Let_def)
    from Cons.IH [OF this] show ?thesis
      using set_update_subset [of "dict_get (payload hit) mk" _ out] by auto
  next
    case False
    with Cons.prems have "(k, e) \<in> set (collect_hits mk vals hits out)"
      by (simp add: Let_def)
    from Cons.IH [OF this] show ?thesis by auto
  qed
qed

lemma collect_hits_snoc:
  "collect_hits mk vals (hits @ [hit]) out =
     (if dict_get (payload hit) mk \<in> set (map PyStr vals) then
        AList.update (dict_get (payload hit) mk)
          \<lparr>entry_id = hit_id hit, modified = dict_get (payload hit) ''modified''\<rparr>
          (collect_hits mk vals hits out)
      else collect_hits mk vals hits out)"
  by (induction hits arbitrary: out) (simp_all add: Let_def)

lemma collect_hits_key_order:
  "map fst (collect_hits mk vals hits []) =
     rev (remdups (rev (filter (\<lambda>k. k \<in> set (map PyStr vals))
                          (map (\<lambda>hit. dict_get (payload hit) mk) hits))))"
proof (induction hits rule: rev_induct)
  case Nil
  then show ?case by simp
next
  case (snoc hit hits)
  let ?ks = "filter (\<lambda>k. k \<in> set (map PyStr vals)) (map (\<lambda>hit. dict_get (payload hit) mk) hits)"
  have s: "set (map fst (collect_hits mk vals hits [])) = set ?ks"
    using snoc.IH by simp
  show ?case
  proof (cases "dict_get (payload hit) mk \<in> set (map PyStr vals)")
    case True
    then show ?thesis
      using snoc.IH s by (simp add: collect_hits_snoc AList.update_keys)
  next
    case False
    then show ?thesis
      using snoc.IH by (simp add: collect_hits_snoc)
  qed
qed

lemma collect_hits_lookup:
  "map_of (collect_hits mk vals hits []) k =
     (if k \<in> set (map PyStr vals) then
        map_option (\<lambda>hit. \<lparr>entry_id = hit_id hit, modified = dict_get (payload hit) ''modified''\<rparr>)
          (List.find (\<lambda>hit. dict_get (payload hit) mk = k) (rev hits))
      else None)"
proof (induction hits rule: rev_induct)
  case Nil
  then show ?case by simp
next
  case (snoc hit hits)
  show ?case
  proof (cases "dict_get (payload hit) mk \<in> set (map PyStr vals)")
    case True
    then show ?thesis
      using snoc.IH by (auto simp: collect_hits_snoc AList.update_conv')
  next
    case False
    then show ?thesis
      using snoc.IH by (auto simp: collect_hits_snoc)
  qed
qed

subsection \<open>setup_schema and get_objects_from_metadata\<close>

lemma setup_schema_no_client:
  "client self = None \<Longrightarrow>
     setup_schema h self user_id svc =
       (Inl (DbException ''Error: Qdrant client not initialised'' None), svc)"
  by (simp add: setup_schema_def)

lemma setup_schema_present:
  "client self = Some c \<Longrightarrow> get_collection_name h user_id \<in> set (map name (collections svc)) \<Longrightarrow>
     setup_schema h self user_id svc =
       (Inr (), svc\<lparr>requests := requests svc @ [GetCollections]\<rparr>)"
  by (simp add: setup_schema_def get_collections_def Let_def)

lemma setup_schema_absent:
  "client self = Some c \<Longrightarrow> get_collection_name h user_id \<notin> set (map name (collections svc)) \<Longrightarrow>
     setup_schema h self user_id svc =
       (Inr (),
        svc\<lparr>collections := collections svc @
               [\<lparr>name = get_collection_name h user_id,
                 vectors_config = \<lparr>vsize = 768, vdistance = COSINE\<rparr>,
                 payload_schema = properties class_schema\<rparr>],
            requests := requests svc @
               [GetCollections,
                CreateCollection (get_collection_name h user_id)
                  \<lparr>vsize = 768, vdistance = COSINE\<rparr> (properties class_schema)]\<rparr>)"
  by (simp add: setup_schema_def get_collections_def create_collection_def Let_def)

lemma setup_schema_succeeds:
  "client self = Some c \<Longrightarrow> fst (setup_schema h self user_id svc) = Inr ()"
  by (cases "get_collection_name h user_id \<in> set (map name (collections svc))")
     (simp_all add: setup_schema_present setup_schema_absent)

lemma setup_schema_search_response:
  "search_response (snd (setup_schema h self user_id svc)) = search_response svc"
  by (cases "client self"; cases "get_collection_name h user_id \<in> set (map name (collections svc))")
     (simp_all add: setup_schema_no_client setup_schema_present setup_schema_absent)

lemma search_length: "length (fst (search req svc)) \<le> limit req"
  by (simp add: search_def)

lemma search_after_setup_schema:
  "fst (search req (snd (setup_schema h self user_id svc))) = fst (search req svc)"
  by (simp add: search_def setup_schema_search_response)

lemma get_objects_from_metadata_initialised:
  assumes "client self = Some c"
  shows "get_objects_from_metadata h self user_id metadata_key vals svc =
           (Inr (collect_hits metadata_key vals
                   (take 100
                      (search_response svc
                         \<lparr>collection_name = get_collection_name h user_id,
                          query_vector = None,
                          query_filter = Condition \<lparr>key = PyStr metadata_key,
                                                    match_value = PyList (map PyStr vals)\<rparr>,
                          limit = 100\<rparr>)) []),
            (snd (setup_schema h self user_id svc))
              \<lparr>requests := requests (snd (setup_schema h self user_id svc)) @
                 [Search \<lparr>collection_name = get_collection_name h user_id,
                          query_vector = None,
                          query_filter = Condition \<lparr>key = PyStr metadata_key,
                                                    match_value = PyList (map PyStr vals)\<rparr>,
                          limit = 100\<rparr>]\<rparr>)"
proof -
  obtain svc1 where s: "setup_schema h self user_id svc = (Inr (), svc1)"
    using setup_schema_succeeds [OF assms, of h user_id svc]
    by (cases "setup_schema h self user_id svc") auto
  have "search_response svc1 = search_response svc"
    using setup_schema_search_response [of h self user_id svc] s by simp
  with assms s show ?thesis
    by (simp add: get_objects_from_metadata_def single_filter search_def)
qed

section \<open>The claims\<close>

text \<open>
  C1 (the code departs from it). The claim: a request-level embedding that is not
  \<^verbatim>\<open>None\<close> is the one the returned handle is bound to. The code evaluates
  \<^verbatim>\<open>self.embedding or embedding\<close>, so an adapter that has an instance embedding binds the
  handle to the instance embedding whatever the request passes: here the adapter holds
  \<^verbatim>\<open>'instance'\<close>, the request passes \<^verbatim>\<open>'request'\<close>, and the handle gets \<^verbatim>\<open>'instance'\<close>.
\<close>

theorem get_user_client_instance_embedding_first:
  "fst (get_user_client example_helpers example_adapter ''alice'' (Some ''request'') example_service)
     = Inr \<lparr>vs_client = Some example_client,
            vs_collection_name = ''Vector_user_alice'',
            text_key = ''text'',
            vs_embedding = Some ''instance''\<rparr>"
  by (simp add: get_user_client_def setup_schema_def get_collections_def create_collection_def
      example_helpers_def example_adapter_def example_service_def py_or_def Let_def)

text \<open>
  C2. With an initialised client, get_objects_from_metadata returns a dictionary. The one
  search request it adds to the log has no query vector and the limit 100. Every key of the
  dictionary is one of the requested values, no key occurs twice, and there are at most 100
  entries. The dictionary is determined by the hits the search returned: its keys are the
  requested values found under \<^verbatim>\<open>metadata_key\<close> in the payloads of the hits, in the order
  of their first hit, and the entry of a key holds the id and the \<^verbatim>\<open>'modified'\<close> payload
  field of the last hit that carries it; a value no hit carries has no entry.
\<close>

theorem get_objects_from_metadata_result:
  assumes "client self = Some c"
  shows "\<exists>out svc1 svc2 req hits.
           req = \<lparr>collection_name = get_collection_name h user_id,
                  query_vector = None,
                  query_filter = Condition \<lparr>key = PyStr metadata_key,
                                            match_value = PyList (map PyStr vals)\<rparr>,
                  limit = 100\<rparr>
           \<and> setup_schema h self user_id svc = (Inr (), svc1)
           \<and> hits = fst (search req svc1)
           \<and> get_objects_from_metadata h self user_id metadata_key vals svc = (Inr out, svc2)
           \<and> requests svc2 = requests svc1 @ [Search req]
           \<and> (\<forall>k \<in> set (map fst out). k \<in> set (map PyStr vals))
           \<and> distinct (map fst out)
           \<and> length out \<le> 100
           \<and> (\<forall>(k, e) \<in> set out.
                 \<exists>hit \<in> set hits.
                   dict_get (payload hit) metadata_key = k
                   \<and> e = \<lparr>entry_id = hit_id hit,
                          modified = dict_get (payload hit) ''modified''\<rparr>)
           \<and> map fst out =
                rev (remdups (rev (filter (\<lambda>k. k \<in> set (map PyStr vals))
                                     (map (\<lambda>hit. dict_get (payload hit) metadata_key) hits))))
           \<and> (\<forall>k. map_of out k =
                 (if k \<in> set (map PyStr vals) then
                    map_option
                      (\<lambda>hit. \<lparr>entry_id = hit_id hit,
                              modified = dict_get (payload hit) ''modified''\<rparr>)
                      (List.find (\<lambda>hit. dict_get (payload hit) metadata_key = k) (rev hits))
                  else None))"
proof -
  let ?req = "\<lparr>collection_name = get_collection_name h user_id,
               query_vector = None,
               query_filter = Condition \<lparr>key = PyStr metadata_key,
                                         match_value = PyList (map PyStr vals)\<rparr>,
               limit = 100\<rparr>"
  obtain svc1 where s: "setup_schema h self user_id svc = (Inr (), svc1)"
    using setup_schema_succeeds [OF assms, of h user_id svc]
    by (cases "setup_schema h self user_id svc") auto
  let ?hits = "fst (search ?req svc1)"
  let ?out = "collect_hits metadata_key vals ?hits []"
  have hits: "?hits = take 100 (search_response svc ?req)"
    using search_after_setup_schema [of ?req h self user_id svc] s
    by (simp add: search_def)
  have g: "get_objects_from_metadata h self user_id metadata_key vals svc =
             (Inr ?out, svc1\<lparr>requests := requests svc1 @ [Search ?req]\<rparr>)"
    using get_objects_from_metadata_initialised [OF assms, of h user_id metadata_key vals svc] s
    by (simp only: hits snd_conv)
  have keys: "\<forall>k \<in> set (map fst ?out). k \<in> set (map PyStr vals)"
    using collect_hits_keys [of metadata_key vals ?hits "[]"] by auto
  have dist: "distinct (map fst ?out)"
    by (rule collect_hits_distinct) simp
  have "length ?out \<le> length ?hits"
    using collect_hits_length [of metadata_key vals ?hits "[]"] by simp
  also have "\<dots> \<le> limit ?req"
    by (rule search_length)
  finally have len: "length ?out \<le> 100" by simp
  have ents: "\<forall>(k, e) \<in> set ?out.
                \<exists>hit \<in> set ?hits. dict_get (payload hit) metadata_key = k
                   \<and> e = \<lparr>entry_id = hit_id hit, modified = dict_get (payload hit) ''modified''\<rparr>"
    using collect_hits_entries [of _ _ metadata_key vals ?hits "[]"] by auto
  have ord: "map fst ?out =
               rev (remdups (rev (filter (\<lambda>k. k \<in> set (map PyStr vals))
                                    (map (\<lambda>hit. dict_get (payload hit) metadata_key) ?hits))))"
    by (rule collect_hits_key_order)
  have look: "\<forall>k. map_of ?out k =
                 (if k \<in> set (map PyStr vals) then
                    map_option
                      (\<lambda>hit. \<lparr>entry_id = hit_id hit,
                              modified = dict_get (payload hit) ''modified''\<rparr>)
                      (List.find (\<lambda>hit. dict_get (payload hit) metadata_key = k) (rev ?hits))
                  else None)"
    using collect_hits_lookup [of metadata_key vals ?hits] by blast
  have r: "requests (svc1\<lparr>requests := requests svc1 @ [Search ?req]\<rparr>)
             = requests svc1 @ [Search ?req]"
    by simp
  from s g r keys dist len ents ord look show ?thesis by blast
qed

theorem get_objects_from_metadata_result_witness:
  "client example_adapter = Some example_client
   \<and> (\<exists>out svc2.
         get_objects_from_metadata example_helpers example_adapter ''alice'' ''source''
             [''a'', ''b'', ''c''] example_service = (Inr out, svc2)
         \<and> out = [(PyStr ''a'', \<lparr>entry_id = PyInt 3, modified = PyStr ''300''\<rparr>),
                  (PyStr ''b'', \<lparr>entry_id = PyInt 2, modified = PyStr ''200''\<rparr>)]
         \<and> distinct (map fst out)
         \<and> length out \<le> 100
         \<and> map_of out (PyStr ''a'') = Some \<lparr>entry_id = PyInt 3, modified = PyStr ''300''\<rparr>
         \<and> map_of out (PyStr ''c'') = None)"
proof -
  have h1: "client example_adapter = Some example_client"
    by (simp add: example_adapter_def)
  have o: "fst (get_objects_from_metadata example_helpers example_adapter ''alice'' ''source''
                  [''a'', ''b'', ''c''] example_service)
             = Inr [(PyStr ''a'', \<lparr>entry_id = PyInt 3, modified = PyStr ''300''\<rparr>),
                    (PyStr ''b'', \<lparr>entry_id = PyInt 2, modified = PyStr ''200''\<rparr>)]"
    by (simp add: get_objects_from_metadata_initialised [OF h1] example_service_def
        example_hits_def dict_get_def)
  from get_objects_from_metadata_result
         [OF h1, where h = example_helpers and user_id = "''alice''" and svc = example_service
            and metadata_key = "''source''" and vals = "[''a'', ''b'', ''c'']"]
  obtain out svc2 where
    g: "get_objects_from_metadata example_helpers example_adapter ''alice'' ''source''
          [''a'', ''b'', ''c''] example_service = (Inr out, svc2)"
    and d: "distinct (map fst out)" and l: "length out \<le> 100"
    by blast
  from g o have e: "out = [(PyStr ''a'', \<lparr>entry_id = PyInt 3, modified = PyStr ''300''\<rparr>),
                           (PyStr ''b'', \<lparr>entry_id = PyInt 2, modified = PyStr ''200''\<rparr>)]"
    by simp
  then have m: "map_of out (PyStr ''a'') = Some \<lparr>entry_id = PyInt 3, modified = PyStr ''300''\<rparr>
                \<and> map_of out (PyStr ''c'') = None"
    by simp
  from h1 g d l e m show ?thesis by blast
qed

text \<open>
  C3. If the user's collection is among the collections of the service, setup_schema
  leaves the collections and the search answers as they are and logs no creation request.
  Otherwise, with an initialised client, it returns normally, appends exactly one
  collection, named for the user, with vector size 768 and Cosine distance, and logs
  exactly one creation request. Running it twice leaves the same collections as running
  it once.
\<close>

theorem setup_schema_idempotent:
  "(get_collection_name h user_id \<in> set (map name (collections svc)) \<longrightarrow>
      collections (snd (setup_schema h self user_id svc)) = collections svc
      \<and> search_response (snd (setup_schema h self user_id svc)) = search_response svc
      \<and> creation_calls (snd (setup_schema h self user_id svc)) = creation_calls svc)
   \<and> (client self \<noteq> None \<and> get_collection_name h user_id \<notin> set (map name (collections svc)) \<longrightarrow>
      fst (setup_schema h self user_id svc) = Inr ()
      \<and> collections (snd (setup_schema h self user_id svc)) =
          collections svc @
            [\<lparr>name = get_collection_name h user_id,
              vectors_config = \<lparr>vsize = 768, vdistance = COSINE\<rparr>,
              payload_schema = properties class_schema\<rparr>]
      \<and> creation_calls (snd (setup_schema h self user_id svc)) =
          creation_calls svc @
            [CreateCollection (get_collection_name h user_id)
               \<lparr>vsize = 768, vdistance = COSINE\<rparr> (properties class_schema)])
   \<and> collections (snd (setup_schema h self user_id (snd (setup_schema h self user_id svc))))
       = collections (snd (setup_schema h self user_id svc))"
proof (cases "client self")
  case None
  then show ?thesis by (simp add: setup_schema_no_client)
next
  case (Some c)
  show ?thesis
  proof (cases "get_collection_name h user_id \<in> set (map name (collections svc))")
    case True
    with Some show ?thesis
      by (simp add: setup_schema_present creation_calls_def)
  next
    case False
    with Some show ?thesis
      by (simp add: setup_schema_absent setup_schema_present creation_calls_def)
  qed
qed

theorem setup_schema_idempotent_witness:
  "client example_adapter \<noteq> None
   \<and> get_collection_name example_helpers ''alice'' \<notin> set (map name (collections example_service))
   \<and> collections (snd (setup_schema example_helpers example_adapter ''alice'' example_service))
       = [\<lparr>name = ''Vector_user_alice'',
           vectors_config = \<lparr>vsize = 768, vdistance = COSINE\<rparr>,
           payload_schema = properties class_schema\<rparr>]
   \<and> get_collection_name example_helpers ''alice''
         \<in> set (map name (collections example_provisioned))
   \<and> collections (snd (setup_schema example_helpers example_adapter ''alice'' example_provisioned))
       = collections example_provisioned
   \<and> creation_calls (snd (setup_schema example_helpers example_adapter ''alice'' example_provisioned))
       = creation_calls example_provisioned"
proof -
  have a1: "client example_adapter \<noteq> None"
    by (simp add: example_adapter_def)
  have a2: "get_collection_name example_helpers ''alice''
              \<notin> set (map name (collections example_service))"
    by (simp add: example_service_def)
  have p: "get_collection_name example_helpers ''alice''
             \<in> set (map name (collections example_provisioned))"
    by (simp add: example_helpers_def example_provisioned_def)
  have n: "get_collection_name example_helpers ''alice'' = ''Vector_user_alice''"
    by (simp add: example_helpers_def)
  have c: "collections example_service = []"
    by (simp add: example_service_def)
  show ?thesis
    using setup_schema_idempotent [of example_helpers "''alice''" example_service example_adapter]
      setup_schema_idempotent [of example_helpers "''alice''" example_provisioned example_adapter]
      a1 a2 p n c
    by simp
qed

text \<open>
  C4. If some element of the filter list lacks \<^verbatim>\<open>'metadata_key'\<close> or \<^verbatim>\<open>'values'\<close>,
  get_metadata_filter returns \<^verbatim>\<open>None\<close>; it does not raise.
\<close>

theorem get_metadata_filter_malformed_None:
  assumes "\<exists>f \<in> set filters. f ''metadata_key'' = None \<or> f ''values'' = None"
  shows "get_metadata_filter filters = Inr None"
proof -
  from assms have "\<not> list_all well_formed filters"
    by (auto simp: list_all_iff well_formed_def)
  then obtain k where "filter_body filters = Inl (KeyError k)"
    using filter_body_malformed by blast
  then show ?thesis by (simp add: get_metadata_filter_def)
qed

theorem get_metadata_filter_malformed_None_witness:
  "get_metadata_filter
     [[''metadata_key'' \<mapsto> PyStr ''source'', ''values'' \<mapsto> PyList [PyStr ''a'']],
      [''metadata_key'' \<mapsto> PyStr ''provider'']] = Inr None
   \<and> get_metadata_filter [[''values'' \<mapsto> PyList []]] = Inr None"
proof -
  have a: "get_metadata_filter
     [[''metadata_key'' \<mapsto> PyStr ''source'', ''values'' \<mapsto> PyList [PyStr ''a'']],
      [''metadata_key'' \<mapsto> PyStr ''provider'']] = Inr None"
    by (rule get_metadata_filter_malformed_None) simp
  have b: "get_metadata_filter [[''values'' \<mapsto> PyList []]] = Inr None"
    by (rule get_metadata_filter_malformed_None) simp
  from a b show ?thesis by simp
qed

text \<open>
  C5. On a non-empty list of well-formed filters, get_metadata_filter returns the single
  exact-match condition of the element when the list has exactly one element, and the
  \<^verbatim>\<open>'should'\<close> dictionary holding one exact-match condition per element, in list order,
  when it has two or more.
\<close>

theorem get_metadata_filter_well_formed:
  assumes "filters \<noteq> []" and "list_all well_formed filters"
  shows "get_metadata_filter filters =
           Inr (Some (if length filters = 1 then Condition (exact_match (hd filters))
                      else Should (map exact_match filters)))"
  using assms by (simp add: get_metadata_filter_def filter_body_well_formed)

theorem get_metadata_filter_well_formed_witness:
  "get_metadata_filter [[''metadata_key'' \<mapsto> PyStr ''source'', ''values'' \<mapsto> PyList [PyStr ''a'']]]
     = Inr (Some (Condition \<lparr>key = PyStr ''source'', match_value = PyList [PyStr ''a'']\<rparr>))
   \<and> get_metadata_filter
       [[''metadata_key'' \<mapsto> PyStr ''source'', ''values'' \<mapsto> PyList [PyStr ''a'']],
        [''metadata_key'' \<mapsto> PyStr ''provider'', ''values'' \<mapsto> PyList [PyStr ''b'']]]
     = Inr (Some (Should [\<lparr>key = PyStr ''source'', match_value = PyList [PyStr ''a'']\<rparr>,
                          \<lparr>key = PyStr ''provider'', match_value = PyList [PyStr ''b'']\<rparr>]))"
  using
    get_metadata_filter_well_formed
      [of "[[''metadata_key'' \<mapsto> PyStr ''source'', ''values'' \<mapsto> PyList [PyStr ''a'']]]"]
    get_metadata_filter_well_formed
      [of "[[''metadata_key'' \<mapsto> PyStr ''source'', ''values'' \<mapsto> PyList [PyStr ''a'']],
            [''metadata_key'' \<mapsto> PyStr ''provider'', ''values'' \<mapsto> PyList [PyStr ''b'']]]"]
  by (simp add: well_formed_def exact_match_def)

text \<open>
  C7. The constructor raises exactly when the creation of the client raises, and what it
  raises is the database exception for the connection error, with the client's exception
  as its cause; when the creation returns a client, the adapter's \<^verbatim>\<open>client\<close> field is that
  client and its \<^verbatim>\<open>embedding\<close> field is the given embedding.
\<close>

theorem init_raises_iff_client_raises:
  "(\<forall>x. init QdrantClient getenv emb = Inl x \<longrightarrow>
        (\<exists>e. QdrantClient (getenv ''QDRANT_URL'') (getenv ''QDRANT_APIKEY'') = Inl e
              \<and> x = DbException ''Error: Qdrant connection error'' (Some e)))
   \<and> (\<forall>e. QdrantClient (getenv ''QDRANT_URL'') (getenv ''QDRANT_APIKEY'') = Inl e \<longrightarrow>
        init QdrantClient getenv emb = Inl (DbException ''Error: Qdrant connection error'' (Some e)))
   \<and> (\<forall>c. QdrantClient (getenv ''QDRANT_URL'') (getenv ''QDRANT_APIKEY'') = Inr c \<longrightarrow>
        init QdrantClient getenv emb = Inr \<lparr>client = Some c, embedding = emb\<rparr>)"
proof (cases "QdrantClient (getenv ''QDRANT_URL'') (getenv ''QDRANT_APIKEY'')")
  case (Inl e)
  then have "init QdrantClient getenv emb
               = Inl (DbException ''Error: Qdrant connection error'' (Some e))"
    by (simp add: init_def)
  with Inl show ?thesis by simp
next
  case (Inr c)
  then have "init QdrantClient getenv emb = Inr \<lparr>client = Some c, embedding = emb\<rparr>"
    by (simp add: init_def)
  with Inr show ?thesis by simp
qed

theorem init_raises_iff_client_raises_witness:
  "example_QdrantClient (Map.empty ''QDRANT_URL'') (Map.empty ''QDRANT_APIKEY'')
     = Inl (ClientError ''no url'')
   \<and> init example_QdrantClient Map.empty (Some ''instance'')
       = Inl (DbException ''Error: Qdrant connection error'' (Some (ClientError ''no url'')))
   \<and> example_QdrantClient ([''QDRANT_URL'' \<mapsto> ''http://localhost:6333''] ''QDRANT_URL'')
         ([''QDRANT_URL'' \<mapsto> ''http://localhost:6333''] ''QDRANT_APIKEY'')
       = Inr example_client
   \<and> init example_QdrantClient [''QDRANT_URL'' \<mapsto> ''http://localhost:6333''] (Some ''instance'')
       = Inr example_adapter"
proof -
  have f: "example_QdrantClient (Map.empty ''QDRANT_URL'') (Map.empty ''QDRANT_APIKEY'')
             = Inl (ClientError ''no url'')"
    by (simp add: example_QdrantClient_def)
  have r: "example_QdrantClient ([''QDRANT_URL'' \<mapsto> ''http://localhost:6333''] ''QDRANT_URL'')
             ([''QDRANT_URL'' \<mapsto> ''http://localhost:6333''] ''QDRANT_APIKEY'')
           = Inr example_client"
    by (simp add: example_QdrantClient_def example_client_def)
  have a: "init example_QdrantClient Map.empty (Some ''instance'')
             = Inl (DbException ''Error: Qdrant connection error'' (Some (ClientError ''no url'')))"
    using init_raises_iff_client_raises [of example_QdrantClient Map.empty "Some ''instance''"] f
    by blast
  have "init example_QdrantClient [''QDRANT_URL'' \<mapsto> ''http://localhost:6333'']
             (Some ''instance'')
          = Inr \<lparr>client = Some example_client, embedding = Some ''instance''\<rparr>"
    using init_raises_iff_client_raises
            [of example_QdrantClient "[''QDRANT_URL'' \<mapsto> ''http://localhost:6333'']"
                "Some ''instance''"] r
    by blast
  then have b: "init example_QdrantClient [''QDRANT_URL'' \<mapsto> ''http://localhost:6333'']
             (Some ''instance'') = Inr example_adapter"
    by (simp add: example_adapter_def)
  from f a r b show ?thesis by blast
qed

text \<open>
  C8. A database exception comes out of the constructor exactly when the creation of the
  client raised, and then it is the connection error. It comes out of get_users,
  setup_schema, get_user_client (through setup_schema) and get_objects_from_metadata
  exactly when the \<^verbatim>\<open>client\<close> field is \<^verbatim>\<open>None\<close>, and then it is the error of the
  client-not-initialised guard. get_metadata_filter raises none.
\<close>

theorem db_exception_sources:
  "(init QdrantClient getenv emb = Inl (DbException m cause) \<longleftrightarrow>
      (\<exists>e. QdrantClient (getenv ''QDRANT_URL'') (getenv ''QDRANT_APIKEY'') = Inl e
            \<and> m = ''Error: Qdrant connection error'' \<and> cause = Some e))
   \<and> (fst (get_users h self svc) = Inl (DbException m cause) \<longleftrightarrow>
        client self = None \<and> m = ''Error: Qdrant client not initialised'' \<and> cause = None)
   \<and> (fst (setup_schema h self user_id svc) = Inl (DbException m cause) \<longleftrightarrow>
        client self = None \<and> m = ''Error: Qdrant client not initialised'' \<and> cause = None)
   \<and> (fst (get_user_client h self user_id emb svc) = Inl (DbException m cause) \<longleftrightarrow>
        client self = None \<and> m = ''Error: Qdrant client not initialised'' \<and> cause = None)
   \<and> (fst (get_objects_from_metadata h self user_id metadata_key vals svc)
          = Inl (DbException m cause) \<longleftrightarrow>
        client self = None \<and> m = ''Error: Qdrant client not initialised'' \<and> cause = None)
   \<and> get_metadata_filter filters \<noteq> Inl (DbException m cause)"
proof -
  have i: "init QdrantClient getenv emb = Inl (DbException m cause) \<longleftrightarrow>
      (\<exists>e. QdrantClient (getenv ''QDRANT_URL'') (getenv ''QDRANT_APIKEY'') = Inl e
            \<and> m = ''Error: Qdrant connection error'' \<and> cause = Some e)"
    by (auto simp: init_def split: sum.splits)
  have u: "fst (get_users h self svc) = Inl (DbException m cause) \<longleftrightarrow>
        client self = None \<and> m = ''Error: Qdrant client not initialised'' \<and> cause = None"
    by (cases "client self") (auto simp: get_users_def get_collections_def)
  have s: "fst (setup_schema h self user_id svc) = Inl (DbException m cause) \<longleftrightarrow>
        client self = None \<and> m = ''Error: Qdrant client not initialised'' \<and> cause = None"
  proof (cases "client self")
    case None
    then show ?thesis by (auto simp: setup_schema_no_client)
  next
    case (Some c)
    then show ?thesis by (simp add: setup_schema_succeeds)
  qed
  have c: "fst (get_user_client h self user_id emb svc) = Inl (DbException m cause) \<longleftrightarrow>
        client self = None \<and> m = ''Error: Qdrant client not initialised'' \<and> cause = None"
  proof (cases "client self")
    case None
    then show ?thesis by (auto simp: get_user_client_def setup_schema_no_client)
  next
    case (Some c)
    obtain svc1 where "setup_schema h self user_id svc = (Inr (), svc1)"
      using setup_schema_succeeds [OF Some, of h user_id svc]
      by (cases "setup_schema h self user_id svc") auto
    with Some show ?thesis by (simp add: get_user_client_def)
  qed
  have g: "fst (get_objects_from_metadata h self user_id metadata_key vals svc)
          = Inl (DbException m cause) \<longleftrightarrow>
        client self = None \<and> m = ''Error: Qdrant client not initialised'' \<and> cause = None"
  proof (cases "client self")
    case None
    then show ?thesis by (auto simp: get_objects_from_metadata_def)
  next
    case (Some c)
    then show ?thesis by (simp add: get_objects_from_metadata_initialised)
  qed
  have f: "get_metadata_filter filters \<noteq> Inl (DbException m cause)"
    by (rule get_metadata_filter_no_raise)
  from i u s c g f show ?thesis by blast
qed

theorem db_exception_sources_witness:
  "init example_QdrantClient Map.empty (Some ''instance'')
     = Inl (DbException ''Error: Qdrant connection error'' (Some (ClientError ''no url'')))
   \<and> client \<lparr>client = None, embedding = Some ''instance''\<rparr> = None
   \<and> fst (get_users example_helpers \<lparr>client = None, embedding = Some ''instance''\<rparr>
             example_service)
       = Inl (DbException ''Error: Qdrant client not initialised'' None)
   \<and> fst (get_objects_from_metadata example_helpers
             \<lparr>client = None, embedding = Some ''instance''\<rparr> ''alice'' ''source'' [''a'']
             example_service)
       = Inl (DbException ''Error: Qdrant client not initialised'' None)"
proof -
  have f: "example_QdrantClient (Map.empty ''QDRANT_URL'') (Map.empty ''QDRANT_APIKEY'')
             = Inl (ClientError ''no url'')"
    by (simp add: example_QdrantClient_def)
  show ?thesis
    using db_exception_sources
            [of example_QdrantClient Map.empty "Some ''instance''"
                "''Error: Qdrant connection error''" "Some (ClientError ''no url'')"]
      db_exception_sources
            [of _ _ _ "''Error: Qdrant client not initialised''" None example_helpers
                "\<lparr>client = None, embedding = Some ''instance''\<rparr>" example_service
                "''alice''" "''source''" "[''a'']"]
      f
    by simp
qed

text \<open>
  C9. The filter list get_objects_from_metadata builds has one element with both required
  keys, so get_metadata_filter returns a dictionary for it, and get_objects_from_metadata
  never raises the metadata filter error.
\<close>

theorem filter_error_unreachable:
  "get_metadata_filter [[''metadata_key'' \<mapsto> PyStr metadata_key,
                         ''values'' \<mapsto> PyList (map PyStr vals)]]
     = Inr (Some (Condition \<lparr>key = PyStr metadata_key, match_value = PyList (map PyStr vals)\<rparr>))
   \<and> fst (get_objects_from_metadata h self user_id metadata_key vals svc)
       \<noteq> Inl (DbException ''Error: Qdrant metadata filter error'' cause)"
proof -
  have "fst (get_objects_from_metadata h self user_id metadata_key vals svc)
       \<noteq> Inl (DbException ''Error: Qdrant metadata filter error'' cause)"
  proof (cases "client self")
    case None
    then show ?thesis by (simp add: get_objects_from_metadata_def)
  next
    case (Some c)
    obtain svc1 where "setup_schema h self user_id svc = (Inr (), svc1)"
      using setup_schema_succeeds [OF Some, of h user_id svc]
      by (cases "setup_schema h self user_id svc") auto
    with Some show ?thesis
      by (simp add: get_objects_from_metadata_def single_filter search_def)
  qed
  then show ?thesis by (simp add: single_filter)
qed

text \<open>
  C10. get_metadata_filter returns \<^verbatim>\<open>None\<close> for the empty list, and it returns the same
  value for every list with a malformed element: the return value does not tell the two
  apart.
\<close>

theorem get_metadata_filter_empty_same_as_malformed:
  "get_metadata_filter [] = Inr None
   \<and> (\<not> list_all well_formed filters \<longrightarrow>
        get_metadata_filter filters = get_metadata_filter [])"
proof -
  have e: "get_metadata_filter [] = Inr None"
    by (simp add: get_metadata_filter_def)
  have "get_metadata_filter filters = Inr None" if bad: "\<not> list_all well_formed filters"
  proof -
    obtain k where "filter_body filters = Inl (KeyError k)"
      using filter_body_malformed [OF bad] by blast
    then show ?thesis by (simp add: get_metadata_filter_def)
  qed
  with e show ?thesis by simp
qed

theorem get_metadata_filter_empty_same_as_malformed_witness:
  "\<not> list_all well_formed [[''metadata_key'' \<mapsto> PyStr ''source'']]
   \<and> get_metadata_filter [] = Inr None
   \<and> get_metadata_filter [[''metadata_key'' \<mapsto> PyStr ''source'']] = get_metadata_filter []"
  using get_metadata_filter_empty_same_as_malformed
          [of "[[''metadata_key'' \<mapsto> PyStr ''source'']]"]
  by (simp add: well_formed_def)

end
